theory Spec2Isabelle
  imports Complex_Main "HOL-Library.Multiset" "HOL-Library.Product_Lexorder"
begin

section \<open>JavaScript primitives used by the client\<close>

text \<open>
  A JavaScript string is a sequence of UTF-16 code units: a list of numbers. \<open>js\<close>
  writes the code units of an ASCII literal. A value that may be \<open>null\<close> or
  \<open>undefined\<close> is an \<^typ>\<open>'a option\<close>. The numbers of the script are doubles.
  The integers among them (counts, capacities, durations, weights) are \<^typ>\<open>int\<close> and
  parsed score components are \<^typ>\<open>rat\<close>, computed exactly; a double computes the same
  on integers of magnitude up to \<open>2^53\<close>, and the statements that depend on the
  arithmetic name that range as a hypothesis.
\<close>

type_synonym jsstring = "nat list"

definition js :: "string \<Rightarrow> jsstring" where
  "js s = map of_char s"

definition is_digit :: "nat \<Rightarrow> bool" where
  "is_digit c = (48 \<le> c \<and> c \<le> 57)"

definition digit_val :: "nat \<Rightarrow> nat" where
  "digit_val c = c - 48"

definition is_hex_digit :: "nat \<Rightarrow> bool" where
  "is_hex_digit c = (is_digit c \<or> (97 \<le> c \<and> c \<le> 102) \<or> (65 \<le> c \<and> c \<le> 70))"

definition hex_val :: "nat \<Rightarrow> nat" where
  "hex_val c = (if is_digit c then c - 48 else if 97 \<le> c then c - 87 else c - 55)"

text \<open>
  White space as \<open>trim\<close> and \<open>parseInt\<close> strip it: the WhiteSpace and LineTerminator
  code points of ECMAScript. These are tab, line feed, vertical tab, form feed, carriage
  return, space, U+00A0, U+1680, U+2000 to U+200A, U+2028, U+2029, U+202F, U+205F, U+3000
  and U+FEFF.
\<close>

definition is_space :: "nat \<Rightarrow> bool" where
  "is_space c =
     ((9 \<le> c \<and> c \<le> 13) \<or> c = 32 \<or> c = 160 \<or> c = 5760 \<or> (8192 \<le> c \<and> c \<le> 8202)
      \<or> c = 8232 \<or> c = 8233 \<or> c = 8239 \<or> c = 8287 \<or> c = 12288 \<or> c = 65279)"

definition trim :: "jsstring \<Rightarrow> jsstring" where
  "trim s = rev (dropWhile is_space (rev (dropWhile is_space s)))"

text \<open>
  \<open>toLowerCase\<close> follows the case table of Unicode; the operations that call it take it
  as a parameter. On ASCII text it is \<open>asciiLowerCase\<close>, which the examples use.
\<close>

definition asciiLowerCase :: "jsstring \<Rightarrow> jsstring" where
  "asciiLowerCase s = map (\<lambda>c. if 65 \<le> c \<and> c \<le> 90 then c + 32 else c) s"

text \<open>\<open>str.split(',')\<close>: the pieces between the commas; a string without a comma
  (also the empty one) is one piece.\<close>

fun split_comma :: "jsstring \<Rightarrow> jsstring list" where
  "split_comma [] = [[]]"
| "split_comma (c # cs) =
     (if c = 44 then [] # split_comma cs
      else (case split_comma cs of p # ps \<Rightarrow> (c # p) # ps | [] \<Rightarrow> [[c]]))"

text \<open>The value of a digit string in a radix, most significant digit first.\<close>

definition digits_value :: "nat \<Rightarrow> (nat \<Rightarrow> nat) \<Rightarrow> jsstring \<Rightarrow> nat" where
  "digits_value radix val ds = foldl (\<lambda>a c. radix * a + val c) 0 ds"

text \<open>
  \<open>parseInt(s)\<close> with no radix: leading white space is skipped, a sign is read, a prefix
  \<open>0x\<close> or \<open>0X\<close> selects radix 16, and the longest run of digits is the value; with no
  digit the result is \<open>NaN\<close>, here \<^const>\<open>None\<close>. The value is the integer the digits
  denote, which is the double that \<open>parseInt\<close> returns for magnitudes up to \<open>2^53\<close>.
\<close>

definition parseInt :: "jsstring \<Rightarrow> int option" where
  "parseInt s =
     (let s1 = dropWhile is_space s;
          neg = (case s1 of c # _ \<Rightarrow> c = 45 | [] \<Rightarrow> False);
          s2 = (case s1 of c # r \<Rightarrow> if c = 45 \<or> c = 43 then r else s1 | [] \<Rightarrow> s1);
          hex = (take 2 s2 = js ''0x'' \<or> take 2 s2 = js ''0X'');
          s3 = (if hex then drop 2 s2 else s2);
          ds = (if hex then takeWhile is_hex_digit s3 else takeWhile is_digit s3);
          v = (if hex then digits_value 16 hex_val ds else digits_value 10 digit_val ds)
      in if ds = [] then None else Some (if neg then - int v else int v))"

text \<open>\<open>x || d\<close> on a number: \<open>NaN\<close> and \<open>0\<close> are falsy, so \<open>d\<close> is taken for them.\<close>

definition or_default :: "int option \<Rightarrow> int \<Rightarrow> int" where
  "or_default x d = (case x of None \<Rightarrow> d | Some n \<Rightarrow> if n = 0 then d else n)"

text \<open>Truthiness of a string that may be null: null and the empty string are falsy.\<close>

definition truthy :: "jsstring option \<Rightarrow> bool" where
  "truthy x = (case x of None \<Rightarrow> False | Some s \<Rightarrow> s \<noteq> [])"

text \<open>A non-negative integer in a template literal: its decimal digits.\<close>

fun string_of_nat :: "nat \<Rightarrow> jsstring" where
  "string_of_nat n =
     (if n < 10 then [48 + n] else string_of_nat (n div 10) @ [48 + n mod 10])"

declare string_of_nat.simps [simp del]


section \<open>Data model\<close>

record Resource =
  name :: jsstring
  capacity :: int
  skills :: "jsstring list option"

text \<open>The field \<open>requiredSkill\<close> is only ever tested for truthiness before it is used,
  so an absent skill is the empty string.\<close>

record Task =
  task_id :: jsstring
  task_name :: jsstring
  duration :: int
  requiredSkill :: jsstring
  resource :: "jsstring option"

record Schedule =
  resources :: "Resource list option"
  tasks :: "Task list option"
  score :: "jsstring option"
  solverStatus :: "jsstring option"

record ConstraintWeights =
  required_skill :: int
  resource_capacity :: int
  minimize_duration :: int
  balance_load :: int

datatype request =
    Get jsstring
  | Post jsstring Schedule ConstraintWeights
  | Delete jsstring
  | Put jsstring Schedule

text \<open>
  The global variables of the script, and the part of the page and of the browser they act
  on: the interval timers, the three solving widgets, the toasts shown, the requests sent,
  and the values of the form fields and sliders.
\<close>

record state =
  autoRefreshIntervalId :: "nat option"
  demoDataId :: "jsstring option"
  scheduleId :: "jsstring option"
  loadedSchedule :: "Schedule option"
  nextIntervalId :: nat
  activeIntervals :: "nat list"
  solveButtonShown :: bool
  stopSolvingButtonShown :: bool
  solvingSpinnerActive :: bool
  notifications :: "(jsstring \<times> jsstring) list"
  requests :: "request list"
  resourceNameVal :: jsstring
  resourceCapacityVal :: jsstring
  resourceSkillsVal :: jsstring
  taskNameVal :: jsstring
  taskDurationVal :: jsstring
  taskSkillVal :: jsstring
  weightRequiredSkillVal :: jsstring
  weightResourceCapacityVal :: jsstring
  weightMinimizeDurationVal :: jsstring
  weightBalanceLoadVal :: jsstring


section \<open>Notifications, timers and the solving widgets\<close>

definition showNotification :: "jsstring \<Rightarrow> jsstring \<Rightarrow> state \<Rightarrow> state" where
  "showNotification message type s = s\<lparr>notifications := notifications s @ [(message, type)]\<rparr>"

definition setInterval :: "state \<Rightarrow> nat \<times> state" where
  "setInterval s =
     (nextIntervalId s,
      s\<lparr>activeIntervals := activeIntervals s @ [nextIntervalId s],
        nextIntervalId := Suc (nextIntervalId s)\<rparr>)"

definition clearInterval :: "nat \<Rightarrow> state \<Rightarrow> state" where
  "clearInterval i s = s\<lparr>activeIntervals := removeAll i (activeIntervals s)\<rparr>"

definition refreshSolvingButtons :: "bool \<Rightarrow> state \<Rightarrow> state" where
  "refreshSolvingButtons solving s =
     (if solving then
        (let s1 = s\<lparr>solveButtonShown := False, stopSolvingButtonShown := True,
                     solvingSpinnerActive := True\<rparr>
         in case autoRefreshIntervalId s1 of
              None \<Rightarrow> (let (i, s2) = setInterval s1 in s2\<lparr>autoRefreshIntervalId := Some i\<rparr>)
            | Some _ \<Rightarrow> s1)
      else
        (let s1 = s\<lparr>solveButtonShown := True, stopSolvingButtonShown := False,
                     solvingSpinnerActive := False\<rparr>
         in case autoRefreshIntervalId s1 of
              Some i \<Rightarrow> (clearInterval i s1)\<lparr>autoRefreshIntervalId := None\<rparr>
            | None \<Rightarrow> s1))"


section \<open>Constraint weights\<close>

definition getConstraintWeights :: "state \<Rightarrow> ConstraintWeights" where
  "getConstraintWeights s =
     \<lparr>required_skill = or_default (parseInt (weightRequiredSkillVal s)) 100,
      resource_capacity = or_default (parseInt (weightResourceCapacityVal s)) 100,
      minimize_duration = or_default (parseInt (weightMinimizeDurationVal s)) 50,
      balance_load = or_default (parseInt (weightBalanceLoadVal s)) 50\<rparr>"


section \<open>Loading, rendering, solving and stopping\<close>

text \<open>
  A network call is asynchronous: the function that issues it appends the request to
  \<^const>\<open>requests\<close> and returns; the callback that jQuery runs on the response is a
  function of its own (\<open>_done\<close> for success, \<open>_fail\<close> for failure). Of
  \<open>renderSchedule\<close> the model keeps what reaches the state: the solving widgets and the
  polling timer. The cards and KPI texts it draws are a function of the schedule alone.
  The add forms are reached through their modal dialogs only, so the dialog that an add
  operation hides exists.
\<close>

text \<open>The tasks of a schedule; none when the field is absent.\<close>

definition tasksOf :: "Schedule \<Rightarrow> Task list" where
  "tasksOf sch = (case tasks sch of None \<Rightarrow> [] | Some ts \<Rightarrow> ts)"

text \<open>
  \<open>checkTaskViolation\<close> calls \<open>schedule.resources.find\<close> without a test of
  \<open>schedule.resources\<close>: for an assigned task with a required skill in a schedule that
  has no resources field this is a \<open>TypeError\<close>.
\<close>

datatype error = TypeError

definition checkTaskViolation :: "Task \<Rightarrow> Schedule \<Rightarrow> error + bool" where
  "checkTaskViolation task schedule =
     (if \<not> truthy (resource task) then Inr False
      else if requiredSkill task \<noteq> [] then
        (case resources schedule of
           None \<Rightarrow> Inl TypeError
         | Some rs \<Rightarrow>
             (case find (\<lambda>r. Some (name r) = resource task) rs of
                None \<Rightarrow> Inr False
              | Some r \<Rightarrow>
                  (let hasSkill = (case skills r of None \<Rightarrow> False
                                   | Some sk \<Rightarrow> requiredSkill task \<in> set sk)
                   in if \<not> hasSkill then Inr True else Inr False)))
      else Inr False)"

text \<open>
  \<open>renderSchedule\<close> sets the solving widgets first and draws the cards after that. The
  error of \<open>checkTaskViolation\<close> is raised while the task cards are drawn, so the
  widgets are set by then, and the statements that follow the call of \<open>renderSchedule\<close>
  in its caller do not run.
\<close>

definition renderSchedule_throws :: "Schedule \<Rightarrow> bool" where
  "renderSchedule_throws schedule =
     list_ex (\<lambda>task. checkTaskViolation task schedule = Inl TypeError) (tasksOf schedule)"

definition renderSchedule :: "Schedule \<Rightarrow> state \<Rightarrow> state" where
  "renderSchedule schedule s =
     refreshSolvingButtons
       (solverStatus schedule \<noteq> None \<and> solverStatus schedule \<noteq> Some (js ''NOT_SOLVING'')) s"


definition refreshSchedule_done :: "Schedule \<Rightarrow> state \<Rightarrow> state" where
  "refreshSchedule_done schedule s = renderSchedule schedule (s\<lparr>loadedSchedule := Some schedule\<rparr>)"

definition refreshSchedule_fail :: "state \<Rightarrow> state" where
  "refreshSchedule_fail s =
     refreshSolvingButtons False (showNotification (js ''Failed to load schedule data.'') (js ''danger'') s)"

definition solve :: "state \<Rightarrow> state" where
  "solve s =
     (case loadedSchedule s of
        None \<Rightarrow> showNotification (js ''No data loaded. Please select a dataset first.'') (js ''warning'') s
      | Some sch \<Rightarrow>
          s\<lparr>requests := requests s @ [Post (js ''/schedules'') sch (getConstraintWeights s)]\<rparr>)"

definition solve_done :: "jsstring \<Rightarrow> state \<Rightarrow> state" where
  "solve_done data s =
     showNotification (js ''Solver started!'') (js ''success'')
       (refreshSolvingButtons True (s\<lparr>scheduleId := Some data\<rparr>))"

definition solve_fail :: "jsstring \<Rightarrow> state \<Rightarrow> state" where
  "solve_fail thrownError s =
     refreshSolvingButtons False
       (showNotification ((js ''Failed to start solving: '') @ thrownError) (js ''danger'') s)"







section \<open>Local edits of the loaded schedule\<close>

text \<open>The object \<open>{ resources: [], tasks: [] }\<close> that the add operations start from when
  nothing is loaded.\<close>

definition empty_schedule :: Schedule where
  "empty_schedule = \<lparr>resources = Some [], tasks = Some [], score = None, solverStatus = None\<rparr>"

definition addResource :: "(jsstring \<Rightarrow> jsstring) \<Rightarrow> state \<Rightarrow> state" where
  "addResource toLowerCase s =
     (let rname = trim (resourceNameVal s);
          rcapacity = or_default (parseInt (resourceCapacityVal s)) 100;
          skillsStr = trim (resourceSkillsVal s);
          rskills = (if skillsStr \<noteq> [] then map (\<lambda>p. toLowerCase (trim p)) (split_comma skillsStr)
                     else [])
      in if rname = [] then showNotification (js ''Please enter a resource name'') (js ''warning'') s
         else if (case loadedSchedule s of
                    None \<Rightarrow> False
                  | Some sch \<Rightarrow>
                      (case resources sch of
                         None \<Rightarrow> False
                       | Some rs \<Rightarrow> list_ex (\<lambda>r. name r = rname) rs))
         then showNotification (js ''A resource with this name already exists'') (js ''warning'') s
         else
           (let sch0 = (case loadedSchedule s of None \<Rightarrow> empty_schedule | Some sch \<Rightarrow> sch);
                rs0 = (case resources sch0 of None \<Rightarrow> [] | Some rs \<Rightarrow> rs);
                sch1 = sch0\<lparr>resources :=
                          Some (rs0 @ [\<lparr>name = rname, capacity = rcapacity,
                                         skills = Some rskills\<rparr>])\<rparr>;
                s1 = renderSchedule sch1 (s\<lparr>loadedSchedule := Some sch1\<rparr>)
            in if renderSchedule_throws sch1 then s1
               else showNotification ((js ''Added resource: '') @ rname) (js ''success'') s1))"

definition removeResource :: "jsstring \<Rightarrow> state \<Rightarrow> state" where
  "removeResource resourceName s =
     (case loadedSchedule s of
        None \<Rightarrow> s
      | Some sch \<Rightarrow>
          (case resources sch of
             None \<Rightarrow> s
           | Some rs \<Rightarrow>
               (let sch1 = sch\<lparr>resources := Some (filter (\<lambda>r. name r \<noteq> resourceName) rs)\<rparr>;
                    sch2 = (case tasks sch1 of
                              None \<Rightarrow> sch1
                            | Some ts \<Rightarrow>
                                sch1\<lparr>tasks :=
                                  Some (map (\<lambda>t. if resource t = Some resourceName
                                                  then t\<lparr>resource := None\<rparr> else t) ts)\<rparr>);
                    s1 = renderSchedule sch2 (s\<lparr>loadedSchedule := Some sch2\<rparr>)
                in if renderSchedule_throws sch2 then s1
                   else showNotification ((js ''Removed resource: '') @ resourceName) (js ''info'') s1)))"

text \<open>
  The id loop of \<open>addTask\<close>. The variable \<open>newId\<close> is \<open>task-${counter}\<close> at every test of
  the loop condition, so the loop is a function of the counter; it returns the id it
  leaves with.
\<close>

definition taskIdOf :: "nat \<Rightarrow> jsstring" where
  "taskIdOf counter = (js ''task-'') @ string_of_nat counter"

function uniqueTaskId :: "jsstring list \<Rightarrow> nat \<Rightarrow> jsstring" where
  "uniqueTaskId existingIds counter =
     (if taskIdOf counter \<in> set existingIds then uniqueTaskId existingIds (Suc counter)
      else taskIdOf counter)"
  by pat_completeness auto

definition addTask :: "(jsstring \<Rightarrow> jsstring) \<Rightarrow> state \<Rightarrow> state" where
  "addTask toLowerCase s =
     (let tname = trim (taskNameVal s);
          tduration = or_default (parseInt (taskDurationVal s)) 30;
          skill = toLowerCase (trim (taskSkillVal s))
      in if tname = [] then showNotification (js ''Please enter a task name'') (js ''warning'') s
         else
           (let sch0 = (case loadedSchedule s of None \<Rightarrow> empty_schedule | Some sch \<Rightarrow> sch);
                ts0 = (case tasks sch0 of None \<Rightarrow> [] | Some ts \<Rightarrow> ts);
                existingIds = map task_id ts0;
                newId = uniqueTaskId existingIds (length ts0 + 1);
                sch1 = sch0\<lparr>tasks :=
                          Some (ts0 @ [\<lparr>task_id = newId, task_name = tname,
                                         duration = tduration, requiredSkill = skill,
                                         resource = None\<rparr>])\<rparr>;
                s1 = renderSchedule sch1 (s\<lparr>loadedSchedule := Some sch1\<rparr>)
            in if renderSchedule_throws sch1 then s1
               else showNotification ((js ''Added task: '') @ tname) (js ''success'') s1))"


section \<open>Derived metrics\<close>

text \<open>The two \<open>forEach\<close> loops of \<open>countViolations\<close> are folds over the counter
  \<open>violations\<close>; \<open>reduce\<close> is the fold that sums the durations.\<close>

definition skillStep :: "Resource list \<Rightarrow> nat \<Rightarrow> Task \<Rightarrow> nat" where
  "skillStep rs violations task =
     (if truthy (resource task) \<and> requiredSkill task \<noteq> [] then
        (case find (\<lambda>r. Some (name r) = resource task) rs of
           None \<Rightarrow> violations
         | Some r \<Rightarrow>
             (case skills r of
                None \<Rightarrow> violations
              | Some sk \<Rightarrow> if requiredSkill task \<notin> set sk then violations + 1 else violations))
      else violations)"

definition totalDuration :: "Task list \<Rightarrow> Resource \<Rightarrow> int" where
  "totalDuration ts r =
     foldl (\<lambda>sum t. sum + duration t) 0 (filter (\<lambda>t. resource t = Some (name r)) ts)"

definition capacityStep :: "Task list \<Rightarrow> nat \<Rightarrow> Resource \<Rightarrow> nat" where
  "capacityStep ts violations r =
     (if totalDuration ts r > capacity r then violations + 1 else violations)"

text \<open>
  The sums of \<open>countViolations\<close> are sums of doubles. They are the integer sums of the
  model when the durations and capacities are integers in the range where a double is
  exact: every capacity of magnitude at most \<open>2^53\<close>, and the magnitudes of the
  durations at most \<open>2^53\<close> taken together, so that no partial sum leaves the range.
\<close>

definition safe_integers :: "Task list \<Rightarrow> Resource list \<Rightarrow> bool" where
  "safe_integers ts rs =
     (sum_list (map (\<lambda>t. \<bar>duration t\<bar>) ts) \<le> 2 ^ 53 \<and> list_all (\<lambda>r. \<bar>capacity r\<bar> \<le> 2 ^ 53) rs)"

definition countViolations :: "Schedule \<Rightarrow> nat" where
  "countViolations schedule =
     (case tasks schedule of
        None \<Rightarrow> 0
      | Some ts \<Rightarrow>
          (case resources schedule of
             None \<Rightarrow> 0
           | Some rs \<Rightarrow> foldl (capacityStep ts) (foldl (skillStep rs) 0 ts) rs))"

text \<open>
  The count as the specification words it: a task counts when its resource is not null,
  its required skill is not empty and the skill list of the resource it names excludes
  the skill; a resource counts when the durations assigned to it exceed its capacity.
\<close>

definition spec_skill_mismatch :: "Resource list \<Rightarrow> Task \<Rightarrow> bool" where
  "spec_skill_mismatch rs t =
     (case resource t of
        None \<Rightarrow> False
      | Some n \<Rightarrow>
          requiredSkill t \<noteq> [] \<and>
          (case find (\<lambda>r. name r = n) rs of
             None \<Rightarrow> False
           | Some r \<Rightarrow> (case skills r of None \<Rightarrow> False | Some sk \<Rightarrow> requiredSkill t \<notin> set sk)))"

definition spec_over_capacity :: "Task list \<Rightarrow> Resource \<Rightarrow> bool" where
  "spec_over_capacity ts r =
     (sum_list (map duration (filter (\<lambda>t. resource t = Some (name r)) ts)) > capacity r)"

definition spec_violationCount :: "Task list \<Rightarrow> Resource list \<Rightarrow> nat" where
  "spec_violationCount ts rs =
     length (filter (spec_skill_mismatch rs) ts) + length (filter (spec_over_capacity ts) rs)"


section \<open>Scores\<close>

record components =
  hard :: rat
  medium :: rat
  soft :: rat

definition zero_components :: components where
  "zero_components = \<lparr>hard = 0, medium = 0, soft = 0\<rparr>"

text \<open>
  The regular expression \<open>/(-?\d*\.?\d+)(hard|medium|soft)/g\<close>. \<^term>\<open>match_here s\<close> is
  the match that starts at the first character of \<open>s\<close>, if there is one: the candidates
  are listed in the order in which a backtracking matcher tries them (the optional minus
  and point taken before left out, the digit runs longest first, the three words in the
  order written) and the first one wins. The result is the pair of the two groups.
\<close>

definition match_here :: "jsstring \<Rightarrow> (jsstring \<times> jsstring) option" where
  "match_here s =
     (case [(sg @ d1 @ dot @ d2, kw).
              (sg, s1) \<leftarrow> (if take 1 s = (js ''-'') then [((js ''-''), drop 1 s)] else []) @ [([], s)],
              k \<leftarrow> rev [0 ..< Suc (length (takeWhile is_digit s1))],
              (d1, s2) \<leftarrow> [(take k s1, drop k s1)],
              (dot, s3) \<leftarrow> (if take 1 s2 = (js ''.'') then [((js ''.''), drop 1 s2)] else []) @ [([], s2)],
              j \<leftarrow> rev [1 ..< Suc (length (takeWhile is_digit s3))],
              (d2, s4) \<leftarrow> [(take j s3, drop j s3)],
              kw \<leftarrow> [(js ''hard''), (js ''medium''), (js ''soft'')],
              take (length kw) s4 = kw]
      of [] \<Rightarrow> None
       | m # _ \<Rightarrow> Some m)"

text \<open>
  \<open>matchAll\<close>: the matches from left to right, each search starting where the previous
  match ended. The first argument counts the characters still inside the previous match.
\<close>

fun matchAll_from :: "nat \<Rightarrow> jsstring \<Rightarrow> (jsstring \<times> jsstring) list" where
  "matchAll_from _ [] = []"
| "matchAll_from (Suc n) (c # cs) = matchAll_from n cs"
| "matchAll_from 0 (c # cs) =
     (case match_here (c # cs) of
        None \<Rightarrow> matchAll_from 0 cs
      | Some (num, kw) \<Rightarrow> (num, kw) # matchAll_from (length num + length kw - 1) cs)"

text \<open>
  \<open>parseFloat\<close> on the text of the first group (an optional minus, digits, and
  optionally a point and digits): the decimal it denotes.
\<close>

definition parseFloat :: "jsstring \<Rightarrow> rat" where
  "parseFloat s =
     (let neg = (take 1 s = (js ''-''));
          s1 = (if neg then drop 1 s else s);
          ip = takeWhile is_digit s1;
          s2 = dropWhile is_digit s1;
          fp = (if take 1 s2 = (js ''.'') then takeWhile is_digit (drop 1 s2) else []);
          v = of_nat (digits_value 10 digit_val ip)
              + of_nat (digits_value 10 digit_val fp) / 10 ^ length fp
      in if neg then - v else v)"

text \<open>
  \<open>parseFloat\<close> returns the double nearest to that decimal. The two are the same number
  when the decimal is an integer of magnitude at most \<open>2^53\<close>; sums and differences of
  such numbers that stay in the range are exact as well.
\<close>

definition safe_number :: "rat \<Rightarrow> bool" where
  "safe_number x = (x = of_int \<lfloor>x\<rfloor> \<and> \<bar>x\<bar> \<le> 2 ^ 53)"

definition set_component :: "components \<Rightarrow> jsstring \<times> jsstring \<Rightarrow> components" where
  "set_component c m =
     (if snd m = (js ''hard'') then c\<lparr>hard := parseFloat (fst m)\<rparr>
      else if snd m = (js ''medium'') then c\<lparr>medium := parseFloat (fst m)\<rparr>
      else if snd m = (js ''soft'') then c\<lparr>soft := parseFloat (fst m)\<rparr>
      else c)"

definition getScoreComponents :: "jsstring option \<Rightarrow> components" where
  "getScoreComponents sc =
     (case sc of
        None \<Rightarrow> zero_components
      | Some s \<Rightarrow> if s = [] then zero_components
                  else foldl set_component zero_components (matchAll_from 0 s))"

text \<open>
  \<open>formatScore\<close> puts two numbers into a template literal; the conversion of a number
  to its text is the parameter \<open>numberToString\<close>.
\<close>

definition formatScore :: "(rat \<Rightarrow> jsstring) \<Rightarrow> jsstring option \<Rightarrow> jsstring" where
  "formatScore numberToString sc =
     (if \<not> truthy sc \<or> sc = Some (js ''?'') then (js ''?'')
      else (let c = getScoreComponents sc
            in numberToString (hard c) @ (js ''/'') @ numberToString (soft c)))"


section \<open>Score analysis\<close>

record Constraint =
  cname :: jsstring
  cscore :: "jsstring option"
  matches :: "jsstring list option"

text \<open>The comparator handed to \<open>constraints.sort\<close>.\<close>

definition compareConstraints :: "Constraint \<Rightarrow> Constraint \<Rightarrow> rat" where
  "compareConstraints a b =
     (let aComponents = getScoreComponents (cscore a);
          bComponents = getScoreComponents (cscore b)
      in if hard aComponents < 0 \<and> hard bComponents \<ge> 0 then - 1
         else if hard aComponents \<ge> 0 \<and> hard bComponents < 0 then 1
         else if \<bar>hard aComponents\<bar> \<noteq> \<bar>hard bComponents\<bar>
              then \<bar>hard bComponents\<bar> - \<bar>hard aComponents\<bar>
         else \<bar>soft bComponents\<bar> - \<bar>soft aComponents\<bar>)"

text \<open>
  \<open>Array.prototype.sort\<close> is stable: elements that compare equal keep their order. It
  is modelled by the stable insertion sort; an element goes before the first element it
  does not compare greater than.
\<close>

fun insert_by :: "('a \<Rightarrow> 'a \<Rightarrow> rat) \<Rightarrow> 'a \<Rightarrow> 'a list \<Rightarrow> 'a list" where
  "insert_by cmp x [] = [x]"
| "insert_by cmp x (y # ys) = (if cmp x y \<le> 0 then x # y # ys else y # insert_by cmp x ys)"

fun array_sort :: "('a \<Rightarrow> 'a \<Rightarrow> rat) \<Rightarrow> 'a list \<Rightarrow> 'a list" where
  "array_sort cmp [] = []"
| "array_sort cmp (x # xs) = insert_by cmp x (array_sort cmp xs)"

datatype icon = ExclamationTriangle | CheckCircle | MinusCircle

record row =
  row_icon :: icon
  row_name :: jsstring
  row_isHard :: bool
  row_matchCount :: nat
  row_scoreDisplay :: rat

datatype analysis_view = NoConstraintData | AnalysisTable "row list"

definition constraintRow :: "Constraint \<Rightarrow> row" where
  "constraintRow constraint =
     (let c = getScoreComponents (if truthy (cscore constraint) then cscore constraint
                                  else Some (js ''0hard/0soft''));
          isHard = (hard c \<noteq> 0);
          matchCount = (case matches constraint of None \<Rightarrow> 0 | Some ms \<Rightarrow> length ms)
      in \<lparr>row_icon = (if isHard \<and> hard c < 0 then ExclamationTriangle
                      else if matchCount = 0 then CheckCircle else MinusCircle),
          row_name = cname constraint,
          row_isHard = isHard,
          row_matchCount = matchCount,
          row_scoreDisplay = (if isHard then hard c else soft c)\<rparr>)"

definition renderScoreAnalysis :: "Constraint list option \<Rightarrow> analysis_view" where
  "renderScoreAnalysis constraintsField =
     (let constraints = (case constraintsField of None \<Rightarrow> [] | Some cs \<Rightarrow> cs)
      in if length constraints = 0 then NoConstraintData
         else AnalysisTable (map constraintRow (array_sort compareConstraints constraints)))"

text \<open>The names in the order in which the table shows them.\<close>

fun displayedNames :: "analysis_view \<Rightarrow> jsstring list" where
  "displayedNames NoConstraintData = []"
| "displayedNames (AnalysisTable rows) = map row_name rows"

text \<open>
  The order as the specification words it: the constraints with a negative hard component
  first, by descending magnitude of the hard component; then the remaining ones by
  descending magnitude of the soft component; ties in the order received.
\<close>

definition spec_display_order :: "Constraint list \<Rightarrow> Constraint list" where
  "spec_display_order cs =
     sort_key (\<lambda>c. - \<bar>hard (getScoreComponents (cscore c))\<bar>)
       (filter (\<lambda>c. hard (getScoreComponents (cscore c)) < 0) cs)
     @ sort_key (\<lambda>c. - \<bar>soft (getScoreComponents (cscore c))\<bar>)
         (filter (\<lambda>c. \<not> hard (getScoreComponents (cscore c)) < 0) cs)"

text \<open>The analyses whose hard and soft components are safe numbers.\<close>

definition exact_scores :: "Constraint list \<Rightarrow> bool" where
  "exact_scores cs =
     list_all (\<lambda>c. safe_number (hard (getScoreComponents (cscore c)))
                  \<and> safe_number (soft (getScoreComponents (cscore c)))) cs"

text \<open>
  The key the comparator orders by: violated hard constraints first, then the larger
  magnitude of the hard component, then the larger magnitude of the soft component.
  Triples are compared lexicographically.
\<close>

definition severity_key :: "Constraint \<Rightarrow> nat \<times> rat \<times> rat" where
  "severity_key c =
     (let k = getScoreComponents (cscore c)
      in (if hard k < 0 then 0 else 1, - \<bar>hard k\<bar>, - \<bar>soft k\<bar>))"


section \<open>Example states and inputs\<close>

definition initial_state :: state where
  "initial_state =
     \<lparr>autoRefreshIntervalId = None, demoDataId = None, scheduleId = None,
      loadedSchedule = None, nextIntervalId = 1, activeIntervals = [],
      solveButtonShown = True, stopSolvingButtonShown = False, solvingSpinnerActive = False,
      notifications = [], requests = [],
      resourceNameVal = [], resourceCapacityVal = (js ''100''), resourceSkillsVal = [],
      taskNameVal = [], taskDurationVal = (js ''30''), taskSkillVal = [],
      weightRequiredSkillVal = (js ''100''), weightResourceCapacityVal = (js ''100''),
      weightMinimizeDurationVal = (js ''50''), weightBalanceLoadVal = (js ''50'')\<rparr>"

definition example_schedule :: Schedule where
  "example_schedule =
     \<lparr>resources = Some [\<lparr>name = (js ''A''), capacity = 60, skills = Some [(js ''x'')]\<rparr>],
      tasks = Some
        [\<lparr>task_id = (js ''t1''), task_name = (js ''first''), duration = 40, requiredSkill = (js ''x''),
          resource = Some (js ''A'')\<rparr>,
         \<lparr>task_id = (js ''t2''), task_name = (js ''second''), duration = 30, requiredSkill = (js ''y''),
          resource = Some (js ''A'')\<rparr>],
      score = None, solverStatus = Some (js ''NOT_SOLVING'')\<rparr>"

text \<open>The state after the data set SMALL has been fetched, and after a solve has started.\<close>

definition loaded_state :: state where
  "loaded_state =
     refreshSchedule_done example_schedule (initial_state\<lparr>demoDataId := Some (js ''SMALL'')\<rparr>)"

definition solving_state :: state where
  "solving_state = solve_done (js ''job-1'') (solve loaded_state)"

definition example_constraints :: "Constraint list" where
  "example_constraints =
     [\<lparr>cname = (js ''Cap''), cscore = Some (js ''-1hard/0soft''), matches = None\<rparr>,
      \<lparr>cname = (js ''Bal''), cscore = Some (js ''0hard/-20soft''), matches = None\<rparr>,
      \<lparr>cname = (js ''Skill''), cscore = Some (js ''-3hard/0soft''), matches = None\<rparr>]"


text \<open>A form that asks for a resource named as an existing one, typed with a no-break space
  before the name and a space after it.\<close>

definition duplicate_state :: state where
  "duplicate_state = loaded_state\<lparr>resourceNameVal := 160 # (js ''A ''), resourceSkillsVal := (js ''y'')\<rparr>"

text \<open>A schedule whose third generated id is already taken, and a filled task form.\<close>

definition collision_schedule :: Schedule where
  "collision_schedule =
     \<lparr>resources = Some [],
      tasks = Some
        [\<lparr>task_id = (js ''task-1''), task_name = (js ''first''), duration = 40, requiredSkill = [],
          resource = None\<rparr>,
         \<lparr>task_id = (js ''task-3''), task_name = (js ''third''), duration = 30, requiredSkill = [],
          resource = None\<rparr>],
      score = None, solverStatus = Some (js ''NOT_SOLVING'')\<rparr>"

definition collision_state :: state where
  "collision_state =
     initial_state\<lparr>loadedSchedule := Some collision_schedule, taskNameVal := (js ''Review'')\<rparr>"

text \<open>Sliders at zero, or with no number in them.\<close>

definition zero_weights_state :: state where
  "zero_weights_state =
     loaded_state\<lparr>weightRequiredSkillVal := (js ''0''), weightResourceCapacityVal := [],
                   weightMinimizeDurationVal := (js ''0''), weightBalanceLoadVal := (js ''-0'')\<rparr>"

text \<open>A resource whose name is the empty string, and a task assigned to it.\<close>

definition unnamed_resources :: "Resource list" where
  "unnamed_resources = [\<lparr>name = [], capacity = 100, skills = Some []\<rparr>]"

definition unnamed_tasks :: "Task list" where
  "unnamed_tasks =
     [\<lparr>task_id = (js ''t1''), task_name = (js ''first''), duration = 10, requiredSkill = (js ''x''),
       resource = Some []\<rparr>]"

definition unnamed_schedule :: Schedule where
  "unnamed_schedule =
     \<lparr>resources = Some unnamed_resources, tasks = Some unnamed_tasks, score = None,
      solverStatus = Some (js ''NOT_SOLVING'')\<rparr>"

text \<open>An analysis with a rewarding hard constraint, and one with two hard constraints of
  equal hard component.\<close>

definition reward_constraints :: "Constraint list" where
  "reward_constraints =
     [\<lparr>cname = (js ''Bal''), cscore = Some (js ''0hard/-20soft''), matches = None\<rparr>,
      \<lparr>cname = (js ''Bonus''), cscore = Some (js ''2hard/0soft''), matches = None\<rparr>]"

definition tied_constraints :: "Constraint list" where
  "tied_constraints =
     [\<lparr>cname = (js ''First''), cscore = Some (js ''-1hard/-5soft''), matches = None\<rparr>,
      \<lparr>cname = (js ''Second''), cscore = Some (js ''-1hard/-10soft''), matches = None\<rparr>]"


section \<open>The id loop of \<open>addTask\<close> terminates\<close>

text \<open>Reading the digits back recovers the number, so different counters give different
  ids, only finitely many counters are taken, and the loop leaves.\<close>

lemma digit_val_char_of: "digit_val (48 + d) = d"
  by (simp add: digit_val_def)

lemma digits_value_snoc:
  "digits_value r v (ds @ [c]) = r * digits_value r v ds + v c"
  by (simp add: digits_value_def)

lemma digits_value_string_of_nat: "digits_value 10 digit_val (string_of_nat n) = n"
proof (induction n rule: string_of_nat.induct)
  case (1 n)
  show ?case
  proof (cases "n < 10")
    case True
    then show ?thesis
      by (subst string_of_nat.simps) (simp add: digits_value_def digit_val_char_of)
  next
    case False
    with 1 have "digits_value 10 digit_val (string_of_nat (n div 10)) = n div 10" by simp
    with False show ?thesis
      by (subst string_of_nat.simps) (simp add: digits_value_snoc digit_val_char_of)
  qed
qed

lemma string_of_nat_inj: "string_of_nat m = string_of_nat n \<Longrightarrow> m = n"
  by (metis digits_value_string_of_nat)

lemma taskIdOf_inj: "inj taskIdOf"
  by (rule injI) (simp add: taskIdOf_def string_of_nat_inj)

lemma finite_taken_counters: "finite {k. taskIdOf k \<in> set ids}"
proof -
  have "finite (taskIdOf -` set ids)"
    by (rule finite_vimageI [OF _ taskIdOf_inj]) simp
  then show ?thesis by (simp add: vimage_def)
qed

termination uniqueTaskId
proof (relation "measure (\<lambda>(ids, c). card {k. c \<le> k \<and> taskIdOf k \<in> set ids})")
  show "wf (measure (\<lambda>(ids, c). card {k. c \<le> k \<and> taskIdOf k \<in> set ids}))" by simp
next
  fix existingIds :: "jsstring list" and counter :: nat
  assume taken: "taskIdOf counter \<in> set existingIds"
  have fin: "finite {k. counter \<le> k \<and> taskIdOf k \<in> set existingIds}"
    by (rule finite_subset [OF _ finite_taken_counters [of existingIds]]) auto
  have "counter \<in> {k. counter \<le> k \<and> taskIdOf k \<in> set existingIds}"
    and "counter \<notin> {k. Suc counter \<le> k \<and> taskIdOf k \<in> set existingIds}"
    using taken by simp_all
  moreover have "{k. Suc counter \<le> k \<and> taskIdOf k \<in> set existingIds}
          \<subseteq> {k. counter \<le> k \<and> taskIdOf k \<in> set existingIds}"
    by auto
  ultimately have "{k. Suc counter \<le> k \<and> taskIdOf k \<in> set existingIds}
          \<subset> {k. counter \<le> k \<and> taskIdOf k \<in> set existingIds}"
    by blast
  then have "card {k. Suc counter \<le> k \<and> taskIdOf k \<in> set existingIds}
               < card {k. counter \<le> k \<and> taskIdOf k \<in> set existingIds}"
    by (rule psubset_card_mono [OF fin])
  then show "((existingIds, Suc counter), (existingIds, counter))
               \<in> measure (\<lambda>(ids, c). card {k. c \<le> k \<and> taskIdOf k \<in> set ids})"
    by simp
qed

declare uniqueTaskId.simps [simp del]

lemma uniqueTaskId_fresh: "uniqueTaskId ids c \<notin> set ids"
proof (induction ids c rule: uniqueTaskId.induct)
  case (1 existingIds counter)
  then show ?case by (subst uniqueTaskId.simps) simp
qed

lemma uniqueTaskId_form: "\<exists>n\<ge>c. uniqueTaskId ids c = taskIdOf n"
proof (induction ids c rule: uniqueTaskId.induct)
  case (1 existingIds counter)
  show ?case
  proof (cases "taskIdOf counter \<in> set existingIds")
    case True
    with 1 obtain n where "Suc counter \<le> n" "uniqueTaskId existingIds (Suc counter) = taskIdOf n"
      by blast
    with True show ?thesis
      by (subst uniqueTaskId.simps) (auto intro: exI [of _ n])
  next
    case False
    then show ?thesis by (subst uniqueTaskId.simps) auto
  qed
qed


section \<open>Counting with folds, sorting with a comparator\<close>

lemma foldl_count:
  "foldl (\<lambda>v x. if P x then v + 1 else v) (n::nat) xs = n + length (filter P xs)"
  by (induction xs arbitrary: n) auto

lemma foldl_durations:
  "foldl (\<lambda>sum t. sum + duration t) a xs = a + sum_list (map duration xs)"
  by (induction xs arbitrary: a) auto

lemma skillStep_count:
  "skillStep rs v t = (if resource t \<noteq> Some [] \<and> spec_skill_mismatch rs t then v + 1 else v)"
  by (cases "resource t")
     (auto simp: skillStep_def spec_skill_mismatch_def truthy_def split: option.splits)

lemma capacityStep_count:
  "capacityStep ts v r = (if spec_over_capacity ts r then v + 1 else v)"
  by (simp add: capacityStep_def spec_over_capacity_def totalDuration_def foldl_durations)

lemma countViolations_count:
  assumes "tasks sch = Some ts" and "resources sch = Some rs"
  shows "countViolations sch =
           length (filter (\<lambda>t. resource t \<noteq> Some [] \<and> spec_skill_mismatch rs t) ts)
           + length (filter (spec_over_capacity ts) rs)"
proof -
  have "skillStep rs = (\<lambda>v t. if resource t \<noteq> Some [] \<and> spec_skill_mismatch rs t then v + 1 else v)"
    by (intro ext) (rule skillStep_count)
  moreover have "capacityStep ts = (\<lambda>v r. if spec_over_capacity ts r then v + 1 else v)"
    by (intro ext) (rule capacityStep_count)
  ultimately show ?thesis
    using assms by (simp add: countViolations_def foldl_count)
qed

lemma compare_key:
  "compareConstraints a b \<le> 0 \<longleftrightarrow> severity_key a \<le> severity_key b"
  by (auto simp: compareConstraints_def severity_key_def Let_def less_eq_prod_def)

text \<open>The comparator is consistent: its sign is the comparison of the keys, so the stable
  order it asks for is one list, whatever the algorithm that sorts.\<close>

lemma compare_consistent:
  "compareConstraints a b < 0 \<longleftrightarrow> severity_key a < severity_key b"
  "compareConstraints a b = 0 \<longleftrightarrow> severity_key a = severity_key b"
  "compareConstraints a b > 0 \<longleftrightarrow> severity_key a > severity_key b"
  by (auto simp: compareConstraints_def severity_key_def Let_def less_prod_def)

lemma insert_by_insort:
  "insert_by compareConstraints x ys = insort_key severity_key x ys"
  by (induction ys) (simp_all add: compare_key)

lemma array_sort_sort_key:
  "array_sort compareConstraints cs = sort_key severity_key cs"
  by (induction cs) (simp_all add: insert_by_insort)

lemma displayedNames_render:
  "displayedNames (renderScoreAnalysis (Some cs)) = map cname (array_sort compareConstraints cs)"
  by (cases cs) (simp_all add: renderScoreAnalysis_def constraintRow_def Let_def comp_def)

lemma example_order:
  "displayedNames (renderScoreAnalysis (Some example_constraints)) = [(js ''Skill''), (js ''Cap''), (js ''Bal'')]"
  by code_simp

lemma parse_example:
  "getScoreComponents (Some (js ''-2hard/-15soft'')) = \<lparr>hard = - 2, medium = 0, soft = - 15\<rparr>"
  by code_simp

lemma collision_eval:
  "map task_id (tasksOf (the (loadedSchedule (addTask asciiLowerCase collision_state))))
     = [(js ''task-1''), (js ''task-3''), (js ''task-4'')]"
  by code_simp

lemma zero_weights_parse:
  "parseInt (weightRequiredSkillVal zero_weights_state) = Some 0"
  "parseInt (weightResourceCapacityVal zero_weights_state) = None"
  "parseInt (weightMinimizeDurationVal zero_weights_state) = Some 0"
  "parseInt (weightBalanceLoadVal zero_weights_state) = Some 0"
  by (simp_all add: zero_weights_state_def parseInt_def is_space_def is_digit_def js_def
      digits_value_def digit_val_def)

lemma loadedSchedule_showNotification:
  "loadedSchedule (showNotification message type s) = loadedSchedule s"
  by (simp add: showNotification_def)

lemma loadedSchedule_renderSchedule:
  "loadedSchedule (renderSchedule schedule s) = loadedSchedule s"
  by (simp add: renderSchedule_def refreshSolvingButtons_def setInterval_def clearInterval_def
      Let_def split: option.split)

lemmas state_defs =
  initial_state_def loaded_state_def solving_state_def example_schedule_def
  refreshSchedule_done_def renderSchedule_def solve_def solve_done_def
  refreshSolvingButtons_def setInterval_def clearInterval_def showNotification_def Let_def
  js_def


section \<open>Stopping the solver\<close>





section \<open>Removing a resource\<close>

text \<open>
  C2: for a loaded schedule with its resources sequence, after \<open>removeResource r\<close> the
  resources are the former ones without those named \<open>r\<close>, so that no resource named
  \<open>r\<close> is left; no task has \<open>resource = r\<close>; and the tasks are the former ones, those
  that were assigned to \<open>r\<close> with \<open>resource\<close> reset to null.
\<close>

theorem removeResource_referential_integrity:
  assumes "loadedSchedule s = Some sch" and "resources sch = Some rs"
  shows "\<exists>sch'. loadedSchedule (removeResource r s) = Some sch'
           \<and> resources sch' = Some (filter (\<lambda>x. name x \<noteq> r) rs)
           \<and> r \<notin> name ` set (filter (\<lambda>x. name x \<noteq> r) rs)
           \<and> (\<forall>t \<in> set (tasksOf sch'). resource t \<noteq> Some r)
           \<and> tasksOf sch' =
               map (\<lambda>t. if resource t = Some r then t\<lparr>resource := None\<rparr> else t) (tasksOf sch)"
  using assms
  by (cases "tasks sch")
     (auto simp: removeResource_def loadedSchedule_showNotification
        loadedSchedule_renderSchedule tasksOf_def Let_def)

theorem removeResource_witness:
  "loadedSchedule loaded_state = Some example_schedule
   \<and> resources example_schedule = Some [\<lparr>name = (js ''A''), capacity = 60, skills = Some [(js ''x'')]\<rparr>]
   \<and> (\<exists>sch'. loadedSchedule (removeResource (js ''A'') loaded_state) = Some sch'
         \<and> resources sch' = Some []
         \<and> map resource (tasksOf sch') = [None, None])"
proof -
  have h1: "loadedSchedule loaded_state = Some example_schedule"
    by (simp add: state_defs)
  have h2: "resources example_schedule = Some [\<lparr>name = (js ''A''), capacity = 60, skills = Some [(js ''x'')]\<rparr>]"
    by (simp add: example_schedule_def)
  from removeResource_referential_integrity [OF h1 h2, of "(js ''A'')"]
  obtain sch' where "loadedSchedule (removeResource (js ''A'') loaded_state) = Some sch'"
    and "resources sch' = Some []"
    and "tasksOf sch' =
           map (\<lambda>t. if resource t = Some (js ''A'') then t\<lparr>resource := None\<rparr> else t)
             (tasksOf example_schedule)"
    by auto
  then have "loadedSchedule (removeResource (js ''A'') loaded_state) = Some sch'
         \<and> resources sch' = Some [] \<and> map resource (tasksOf sch') = [None, None]"
    by (simp add: tasksOf_def example_schedule_def)
  then have "\<exists>sch'. loadedSchedule (removeResource (js ''A'') loaded_state) = Some sch'
         \<and> resources sch' = Some [] \<and> map resource (tasksOf sch') = [None, None]"
    by (rule exI)
  with h1 h2 show ?thesis by (intro conjI)
qed


section \<open>Solving without a schedule\<close>

text \<open>
  C3: when no schedule is loaded, \<open>solve\<close> shows a warning and does nothing else: the
  state is the former one with the warning appended, so no request is sent (no POST to
  \<open>/schedules\<close>) and \<open>scheduleId\<close> is unchanged.
\<close>

theorem solve_without_schedule:
  assumes "loadedSchedule s = None"
  shows "solve s = s\<lparr>notifications := notifications s @
                      [((js ''No data loaded. Please select a dataset first.''), (js ''warning''))]\<rparr>
         \<and> requests (solve s) = requests s \<and> scheduleId (solve s) = scheduleId s"
  using assms by (simp add: solve_def showNotification_def)

theorem solve_without_schedule_witness:
  "loadedSchedule initial_state = None
   \<and> requests (solve initial_state) = []
   \<and> scheduleId (solve initial_state) = None
   \<and> notifications (solve initial_state)
       = [((js ''No data loaded. Please select a dataset first.''), (js ''warning''))]"
proof -
  have h: "loadedSchedule initial_state = None"
    by (simp add: initial_state_def)
  from solve_without_schedule [OF h] h show ?thesis
    by (simp add: initial_state_def)
qed


section \<open>Adding a resource under an existing name\<close>

text \<open>
  C4: for a loaded schedule, adding a resource whose name (the trimmed text of the form
  field) is the name of a resource of the schedule is rejected: the loaded schedule is
  the same afterwards, and the state differs by one warning only.
\<close>

theorem addResource_duplicate_rejected:
  assumes "loadedSchedule s = Some sch" and "resources sch = Some rs"
    and "trim (resourceNameVal s) \<in> name ` set rs"
  shows "loadedSchedule (addResource lower s) = Some sch
         \<and> (\<exists>message. addResource lower s = s\<lparr>notifications := notifications s @ [(message, (js ''warning''))]\<rparr>)"
  using assms
  by (auto simp: addResource_def showNotification_def Let_def list_ex_iff)

theorem addResource_duplicate_witness:
  "loadedSchedule duplicate_state = Some example_schedule
   \<and> trim (resourceNameVal duplicate_state) = (js ''A'')
   \<and> loadedSchedule (addResource asciiLowerCase duplicate_state) = Some example_schedule
   \<and> notifications (addResource asciiLowerCase duplicate_state)
       = [((js ''A resource with this name already exists''), (js ''warning''))]"
proof -
  have h1: "loadedSchedule duplicate_state = Some example_schedule"
    by (simp add: duplicate_state_def state_defs)
  have h2: "resources example_schedule = Some [\<lparr>name = (js ''A''), capacity = 60, skills = Some [(js ''x'')]\<rparr>]"
    by (simp add: example_schedule_def)
  have h3: "trim (resourceNameVal duplicate_state) = (js ''A'')"
    by (simp add: duplicate_state_def trim_def is_space_def js_def)
  have h4: "trim (resourceNameVal duplicate_state)
              \<in> name ` set [\<lparr>name = (js ''A''), capacity = 60, skills = Some [(js ''x'')]\<rparr>]"
    by (simp add: h3)
  have h5: "notifications (addResource asciiLowerCase duplicate_state)
       = [((js ''A resource with this name already exists''), (js ''warning''))]"
    using h3 by (simp add: addResource_def duplicate_state_def state_defs)
  from addResource_duplicate_rejected [OF h1 h2 h4] h1 h3 h5 show ?thesis by blast
qed


section \<open>The order of the score analysis\<close>

text \<open>
  C5, as stated: constraints with a negative hard component come first, by descending
  magnitude of the hard component; the remaining ones follow by descending magnitude of
  the soft component; ties keep the order received. The table differs from that order in
  two places: among the constraints without a negative hard component the magnitude of
  the hard component is compared before the soft one, and among constraints with equal
  hard component the soft component decides before the order received.
\<close>

theorem analysis_sort_counterexample:
  "displayedNames (renderScoreAnalysis (Some reward_constraints)) = [(js ''Bonus''), (js ''Bal'')]
   \<and> map cname (spec_display_order reward_constraints) = [(js ''Bal''), (js ''Bonus'')]
   \<and> displayedNames (renderScoreAnalysis (Some reward_constraints))
       \<noteq> map cname (spec_display_order reward_constraints)
   \<and> displayedNames (renderScoreAnalysis (Some tied_constraints)) = [(js ''Second''), (js ''First'')]
   \<and> map cname (spec_display_order tied_constraints) = [(js ''First''), (js ''Second'')]
   \<and> displayedNames (renderScoreAnalysis (Some tied_constraints))
       \<noteq> map cname (spec_display_order tied_constraints)"
  by code_simp

text \<open>
  C5, amended: for constraints whose hard and soft components are integers of magnitude
  at most \<open>2^53\<close>, the table lists the constraints in the stable order of the key (negative
  hard component first; then descending magnitude of the hard component, in both groups;
  then descending magnitude of the soft component): the sorted list is a permutation of
  the input, its keys ascend, and constraints of equal key keep the order received. For
  Cap \<open>-1hard/0soft\<close>, Bal \<open>0hard/-20soft\<close>, Skill \<open>-3hard/0soft\<close> the order is
  Skill, Cap, Bal.
\<close>

theorem analysis_sort_order:
  assumes "exact_scores cs"
  shows "mset (array_sort compareConstraints cs) = mset cs
   \<and> sorted (map severity_key (array_sort compareConstraints cs))
   \<and> (\<forall>k. filter (\<lambda>c. severity_key c = k) (array_sort compareConstraints cs)
            = filter (\<lambda>c. severity_key c = k) cs)
   \<and> displayedNames (renderScoreAnalysis (Some cs))
        = map cname (array_sort compareConstraints cs)
   \<and> displayedNames (renderScoreAnalysis (Some example_constraints))
        = [(js ''Skill''), (js ''Cap''), (js ''Bal'')]"
proof (intro conjI allI)
  show "mset (array_sort compareConstraints cs) = mset cs"
    by (simp add: array_sort_sort_key)
  show "sorted (map severity_key (array_sort compareConstraints cs))"
    by (simp add: array_sort_sort_key)
  show "filter (\<lambda>c. severity_key c = k) (array_sort compareConstraints cs)
          = filter (\<lambda>c. severity_key c = k) cs" for k
    by (simp add: array_sort_sort_key sort_key_stable)
  show "displayedNames (renderScoreAnalysis (Some cs))
          = map cname (array_sort compareConstraints cs)"
    by (rule displayedNames_render)
  show "displayedNames (renderScoreAnalysis (Some example_constraints))
          = [(js ''Skill''), (js ''Cap''), (js ''Bal'')]"
    by (rule example_order)
qed

theorem analysis_sort_witness:
  "exact_scores tied_constraints
   \<and> mset (array_sort compareConstraints tied_constraints) = mset tied_constraints
   \<and> map severity_key (array_sort compareConstraints tied_constraints)
        = [(0, - 1, - 10), (0, - 1, - 5)]
   \<and> displayedNames (renderScoreAnalysis (Some tied_constraints)) = [(js ''Second''), (js ''First'')]"
proof -
  have h: "exact_scores tied_constraints"
    by code_simp
  have "map severity_key (array_sort compareConstraints tied_constraints)
        = [(0, - 1, - 10), (0, - 1, - 5)]"
    by code_simp
  moreover have "displayedNames (renderScoreAnalysis (Some tied_constraints)) = [(js ''Second''), (js ''First'')]"
    by code_simp
  ultimately show ?thesis
    using h analysis_sort_order [OF h] by simp
qed


section \<open>Counting violations\<close>

text \<open>
  C6, as stated: with tasks and resources present, \<open>countViolations\<close> is the number of
  tasks with a non-null resource and a non-empty required skill that the named
  resource's skill list excludes, plus the number of resources loaded beyond capacity.
  A task whose resource is the empty string is not null, yet it is skipped.
\<close>

theorem countViolations_empty_name_counterexample:
  "tasks unnamed_schedule = Some unnamed_tasks
   \<and> resources unnamed_schedule = Some unnamed_resources
   \<and> countViolations unnamed_schedule = 0
   \<and> spec_violationCount unnamed_tasks unnamed_resources = 1
   \<and> countViolations unnamed_schedule \<noteq> spec_violationCount unnamed_tasks unnamed_resources"
  by (simp add: unnamed_schedule_def unnamed_tasks_def unnamed_resources_def
      countViolations_def skillStep_def capacityStep_def totalDuration_def truthy_def
      spec_violationCount_def spec_skill_mismatch_def spec_over_capacity_def js_def)

text \<open>
  C6, amended: with tasks and resources present, and durations and capacities that are
  integers in the safe range (every capacity of magnitude at most \<open>2^53\<close>, the magnitudes
  of the durations together at most \<open>2^53\<close>), \<open>countViolations\<close> is the number of
  tasks with a resource that is neither null nor the empty string and a non-empty
  required skill that the named resource (the first of that name) has a skill list
  without, plus the number of
  resources whose assigned durations sum to more than their capacity. Where no task has
  the empty string as its resource this is the count of the specification; for the
  resource A (capacity 60, skill x) with the tasks t1 (40, x) and t2 (30, y) it is 2.
\<close>

theorem countViolations_formula:
  assumes "tasks sch = Some ts" and "resources sch = Some rs" and "safe_integers ts rs"
  shows "countViolations sch =
           length (filter (\<lambda>t. resource t \<noteq> Some [] \<and> spec_skill_mismatch rs t) ts)
           + length (filter (spec_over_capacity ts) rs)
         \<and> ((\<forall>t \<in> set ts. resource t \<noteq> Some []) \<longrightarrow>
              countViolations sch = spec_violationCount ts rs)"
proof -
  have count: "countViolations sch =
           length (filter (\<lambda>t. resource t \<noteq> Some [] \<and> spec_skill_mismatch rs t) ts)
           + length (filter (spec_over_capacity ts) rs)"
    using assms(1,2) by (rule countViolations_count)
  have "filter (\<lambda>t. resource t \<noteq> Some [] \<and> spec_skill_mismatch rs t) ts
          = filter (spec_skill_mismatch rs) ts"
    if "\<forall>t \<in> set ts. resource t \<noteq> Some []"
    using that by (intro filter_cong) auto
  with count show ?thesis
    by (simp add: spec_violationCount_def)
qed

theorem countViolations_witness:
  "tasks example_schedule = Some (tasksOf example_schedule)
   \<and> safe_integers (tasksOf example_schedule)
        [\<lparr>name = (js ''A''), capacity = 60, skills = Some [(js ''x'')]\<rparr>]
   \<and> resources example_schedule = Some [\<lparr>name = (js ''A''), capacity = 60, skills = Some [(js ''x'')]\<rparr>]
   \<and> countViolations example_schedule = 2
   \<and> spec_violationCount (tasksOf example_schedule)
        [\<lparr>name = (js ''A''), capacity = 60, skills = Some [(js ''x'')]\<rparr>] = 2"
proof -
  have h1: "tasks example_schedule = Some (tasksOf example_schedule)"
    by (simp add: example_schedule_def tasksOf_def)
  have h2: "resources example_schedule = Some [\<lparr>name = (js ''A''), capacity = 60, skills = Some [(js ''x'')]\<rparr>]"
    by (simp add: example_schedule_def)
  have h3: "\<forall>t \<in> set (tasksOf example_schedule). resource t \<noteq> Some []"
    by (simp add: example_schedule_def tasksOf_def js_def)
  have h4: "safe_integers (tasksOf example_schedule)
        [\<lparr>name = (js ''A''), capacity = 60, skills = Some [(js ''x'')]\<rparr>]"
    by (simp add: safe_integers_def example_schedule_def tasksOf_def)
  have v: "countViolations example_schedule = 2"
    by code_simp
  from countViolations_formula [OF h1 h2 h4] h3
  have "countViolations example_schedule = spec_violationCount (tasksOf example_schedule)
        [\<lparr>name = (js ''A''), capacity = 60, skills = Some [(js ''x'')]\<rparr>]"
    by blast
  with v have "spec_violationCount (tasksOf example_schedule)
        [\<lparr>name = (js ''A''), capacity = 60, skills = Some [(js ''x'')]\<rparr>] = 2"
    by simp
  with h1 h2 h4 v show ?thesis by (intro conjI)
qed


section \<open>Parsing and formatting a score\<close>

text \<open>
  C7: \<open>getScoreComponents\<close> of \<open>-2hard/-15soft\<close> has hard component -2 and soft
  component -15, and \<open>formatScore\<close> of a null score is the text \<open>?\<close>.
\<close>

theorem score_parsing_and_formatting:
  "getScoreComponents (Some (js ''-2hard/-15soft'')) = \<lparr>hard = - 2, medium = 0, soft = - 15\<rparr>
   \<and> hard (getScoreComponents (Some (js ''-2hard/-15soft''))) = - 2
   \<and> soft (getScoreComponents (Some (js ''-2hard/-15soft''))) = - 15
   \<and> formatScore numberToString None = (js ''?'')"
  by (simp add: parse_example formatScore_def truthy_def)

theorem score_formatting_witness:
  "formatScore (\<lambda>q. (js ''n'')) None = (js ''?'')
   \<and> formatScore (\<lambda>q. (js ''n'')) (Some (js ''-2hard/-15soft'')) = (js ''n/n'')"
  using score_parsing_and_formatting [of "\<lambda>q. (js ''n'')"]
  by (simp add: formatScore_def truthy_def js_def)


section \<open>Stopping the polling loop twice\<close>

text \<open>
  C8: \<open>refreshSolvingButtons(false)\<close> is idempotent. In every state a second call
  returns the state the first call left, in which the polling handle is null, the Solve
  button is shown and the Stop button is hidden. A call with a timer running clears
  that timer; a call with no timer running touches the three widgets only.
\<close>

theorem refreshSolvingButtons_stop_idempotent:
  "refreshSolvingButtons False (refreshSolvingButtons False s) = refreshSolvingButtons False s
   \<and> autoRefreshIntervalId (refreshSolvingButtons False s) = None
   \<and> solveButtonShown (refreshSolvingButtons False s)
   \<and> \<not> stopSolvingButtonShown (refreshSolvingButtons False s)
   \<and> (case autoRefreshIntervalId s of
         None \<Rightarrow> refreshSolvingButtons False s
                  = s\<lparr>solveButtonShown := True, stopSolvingButtonShown := False,
                      solvingSpinnerActive := False\<rparr>
       | Some i \<Rightarrow> i \<notin> set (activeIntervals (refreshSolvingButtons False s)))"
  by (simp add: refreshSolvingButtons_def clearInterval_def Let_def split: option.split)

theorem refreshSolvingButtons_stop_witness:
  "autoRefreshIntervalId solving_state = Some 1
   \<and> autoRefreshIntervalId (refreshSolvingButtons False solving_state) = None
   \<and> activeIntervals (refreshSolvingButtons False solving_state) = []
   \<and> refreshSolvingButtons False (refreshSolvingButtons False solving_state)
       = refreshSolvingButtons False solving_state"
  using refreshSolvingButtons_stop_idempotent [of solving_state]
  by (simp add: state_defs)


section \<open>Generated task ids\<close>

text \<open>
  C9: for a loaded schedule whose task ids are pairwise distinct, the task ids are
  pairwise distinct after \<open>addTask\<close>; and when a task is added (the name in the form is
  not blank) it is appended with an id \<open>task-n\<close>, where \<open>n\<close> is beyond the number of
  tasks, that is the id of no task already in the schedule.
\<close>

theorem addTask_ids_distinct:
  assumes "loadedSchedule s = Some sch" and "distinct (map task_id (tasksOf sch))"
  shows "\<exists>sch'. loadedSchedule (addTask lower s) = Some sch'
           \<and> distinct (map task_id (tasksOf sch'))
           \<and> (trim (taskNameVal s) = [] \<longrightarrow> sch' = sch)
           \<and> (trim (taskNameVal s) \<noteq> [] \<longrightarrow>
                (\<exists>t n. tasks sch' = Some (tasksOf sch @ [t])
                   \<and> task_id t = (js ''task-'') @ string_of_nat n \<and> length (tasksOf sch) < n
                   \<and> task_id t \<notin> set (map task_id (tasksOf sch))))"
proof (cases "trim (taskNameVal s) = []")
  case True
  with assms show ?thesis
    by (simp add: addTask_def showNotification_def Let_def)
next
  case False
  define ids where "ids = map task_id (tasksOf sch)"
  define newId where "newId = uniqueTaskId ids (length (tasksOf sch) + 1)"
  define t where "t = \<lparr>task_id = newId, task_name = trim (taskNameVal s),
      duration = or_default (parseInt (taskDurationVal s)) 30,
      requiredSkill = lower (trim (taskSkillVal s)), resource = None\<rparr>"
  define sch' where "sch' = sch\<lparr>tasks := Some (tasksOf sch @ [t])\<rparr>"
  have fresh: "newId \<notin> set ids"
    unfolding newId_def by (rule uniqueTaskId_fresh)
  obtain n where n: "length (tasksOf sch) + 1 \<le> n" "newId = taskIdOf n"
    unfolding newId_def using uniqueTaskId_form by blast
  have loaded: "loadedSchedule (addTask lower s) = Some sch'"
    using assms(1) False
    by (simp add: addTask_def loadedSchedule_showNotification loadedSchedule_renderSchedule
        Let_def sch'_def t_def newId_def ids_def tasksOf_def)
  have tasks': "tasksOf sch' = tasksOf sch @ [t]" "tasks sch' = Some (tasksOf sch @ [t])"
    by (simp_all add: sch'_def tasksOf_def)
  have "task_id t = newId" by (simp add: t_def)
  with fresh assms(2) have "distinct (map task_id (tasksOf sch'))"
    by (simp add: tasks' ids_def)
  moreover have "task_id t = (js ''task-'') @ string_of_nat n" "length (tasksOf sch) < n"
    using n \<open>task_id t = newId\<close> by (simp_all add: taskIdOf_def)
  moreover have "task_id t \<notin> set (map task_id (tasksOf sch))"
    using fresh \<open>task_id t = newId\<close> by (simp add: ids_def)
  ultimately show ?thesis
    using loaded tasks' False by blast
qed

theorem addTask_ids_witness:
  "loadedSchedule collision_state = Some collision_schedule
   \<and> distinct (map task_id (tasksOf collision_schedule))
   \<and> trim (taskNameVal collision_state) \<noteq> []
   \<and> (\<exists>sch'. loadedSchedule (addTask asciiLowerCase collision_state) = Some sch'
         \<and> distinct (map task_id (tasksOf sch'))
         \<and> map task_id (tasksOf sch') = [(js ''task-1''), (js ''task-3''), (js ''task-4'')])"
proof -
  have h1: "loadedSchedule collision_state = Some collision_schedule"
    by (simp add: collision_state_def)
  have h2: "distinct (map task_id (tasksOf collision_schedule))"
    by (simp add: collision_schedule_def tasksOf_def js_def)
  have h3: "trim (taskNameVal collision_state) \<noteq> []"
    by (simp add: collision_state_def trim_def is_space_def js_def)
  from addTask_ids_distinct [OF h1 h2] obtain sch' where
    s: "loadedSchedule (addTask asciiLowerCase collision_state) = Some sch'"
      "distinct (map task_id (tasksOf sch'))"
    by blast
  from s(1) collision_eval have "map task_id (tasksOf sch') = [(js ''task-1''), (js ''task-3''), (js ''task-4'')]"
    by simp
  with s have "\<exists>sch'. loadedSchedule (addTask asciiLowerCase collision_state) = Some sch'
         \<and> distinct (map task_id (tasksOf sch'))
         \<and> map task_id (tasksOf sch') = [(js ''task-1''), (js ''task-3''), (js ''task-4'')]"
    by (intro exI [of _ sch'] conjI)
  with h1 h2 h3 show ?thesis by (intro conjI)
qed


section \<open>Weights of zero\<close>

text \<open>
  C10: no weight that \<open>getConstraintWeights\<close> returns is 0. Where the text of a slider
  parses to 0 or to no integer, the default stands in its place: 100 for
  \<open>required_skill\<close> and \<open>resource_capacity\<close>, 50 for \<open>minimize_duration\<close> and
  \<open>balance_load\<close>. These are the weights that \<open>solve\<close> posts with the schedule.
\<close>

theorem getConstraintWeights_never_zero:
  "required_skill (getConstraintWeights s) \<noteq> 0
   \<and> resource_capacity (getConstraintWeights s) \<noteq> 0
   \<and> minimize_duration (getConstraintWeights s) \<noteq> 0
   \<and> balance_load (getConstraintWeights s) \<noteq> 0
   \<and> (parseInt (weightRequiredSkillVal s) \<in> {None, Some 0}
        \<longrightarrow> required_skill (getConstraintWeights s) = 100)
   \<and> (parseInt (weightResourceCapacityVal s) \<in> {None, Some 0}
        \<longrightarrow> resource_capacity (getConstraintWeights s) = 100)
   \<and> (parseInt (weightMinimizeDurationVal s) \<in> {None, Some 0}
        \<longrightarrow> minimize_duration (getConstraintWeights s) = 50)
   \<and> (parseInt (weightBalanceLoadVal s) \<in> {None, Some 0}
        \<longrightarrow> balance_load (getConstraintWeights s) = 50)
   \<and> (\<forall>sch. loadedSchedule s = Some sch \<longrightarrow>
         requests (solve s) = requests s @ [Post (js ''/schedules'') sch (getConstraintWeights s)])"
  by (auto simp: getConstraintWeights_def or_default_def solve_def split: option.splits)

theorem getConstraintWeights_witness:
  "parseInt (weightRequiredSkillVal zero_weights_state) = Some 0
   \<and> parseInt (weightResourceCapacityVal zero_weights_state) = None
   \<and> parseInt (weightMinimizeDurationVal zero_weights_state) = Some 0
   \<and> parseInt (weightBalanceLoadVal zero_weights_state) = Some 0
   \<and> getConstraintWeights zero_weights_state
       = \<lparr>required_skill = 100, resource_capacity = 100, minimize_duration = 50,
          balance_load = 50\<rparr>
   \<and> loadedSchedule zero_weights_state = Some example_schedule
   \<and> last (requests (solve zero_weights_state))
       = Post (js ''/schedules'') example_schedule
           \<lparr>required_skill = 100, resource_capacity = 100, minimize_duration = 50,
            balance_load = 50\<rparr>"
proof -
  have l: "loadedSchedule zero_weights_state = Some example_schedule"
    by (simp add: zero_weights_state_def state_defs)
  from getConstraintWeights_never_zero [of zero_weights_state] zero_weights_parse
  have w: "required_skill (getConstraintWeights zero_weights_state) = 100"
    "resource_capacity (getConstraintWeights zero_weights_state) = 100"
    "minimize_duration (getConstraintWeights zero_weights_state) = 50"
    "balance_load (getConstraintWeights zero_weights_state) = 50"
    and r: "requests (solve zero_weights_state) = requests zero_weights_state @
        [Post (js ''/schedules'') example_schedule (getConstraintWeights zero_weights_state)]"
    using l by simp_all
  from w have g: "getConstraintWeights zero_weights_state
       = \<lparr>required_skill = 100, resource_capacity = 100, minimize_duration = 50,
          balance_load = 50\<rparr>"
    by (cases "getConstraintWeights zero_weights_state") simp
  with r have "last (requests (solve zero_weights_state))
       = Post (js ''/schedules'') example_schedule
           \<lparr>required_skill = 100, resource_capacity = 100, minimize_duration = 50,
            balance_load = 50\<rparr>"
    by simp
  with zero_weights_parse g l show ?thesis by (intro conjI)
qed

end
